theory Spec2Isabelle
  imports Main "HOL-Library.Word"
begin

unbundle bit_operations_syntax

section \<open>JavaScript values used by the library\<close>

text \<open>
  A JavaScript string is a sequence of UTF-16 code units; a Node.js \<open>Buffer\<close> is a
  sequence of bytes.  String literals of the source are written \<open>js ''...''\<close>.
  JavaScript numbers are modelled by \<open>int\<close>: the library uses them for page sizes,
  amounts and HTTP status codes only.  The model covers the integers that a number
  holds exactly and prints in decimal digits; fractions, \<open>NaN\<close>, the infinities and
  numbers of \<open>10^21\<close> or more, which print with an exponent, are outside it.
\<close>

type_synonym byte = "8 word"
type_synonym Buffer = "byte list"
type_synonym jsstring = "16 word list"

definition js :: "string \<Rightarrow> jsstring" where
  "js s = map of_char s"

text \<open>
  A thrown value: an error object with its \<open>name\<close> and \<open>message\<close>.
  \<open>new Error(m)\<close> has the name \<open>Error\<close>.  \<open>error_toString\<close> is
  \<open>Error.prototype.toString\<close>, which a template literal \<open>`${error}`\<close> calls.
\<close>

datatype js_error = Thrown (err_name: jsstring) (err_message: jsstring)

definition new_Error :: "jsstring \<Rightarrow> js_error" where
  "new_Error m = Thrown (js ''Error'') m"

definition new_RangeError :: "jsstring \<Rightarrow> js_error" where
  "new_RangeError m = Thrown (js ''RangeError'') m"

definition new_TypeError :: "jsstring \<Rightarrow> js_error" where
  "new_TypeError m = Thrown (js ''TypeError'') m"

definition error_toString :: "js_error \<Rightarrow> jsstring" where
  "error_toString e =
     (if err_name e = [] then err_message e
      else if err_message e = [] then err_name e
      else err_name e @ js '': '' @ err_message e)"

text \<open>\<open>String.prototype.startsWith\<close> with a search string and no position.\<close>

definition startsWith :: "jsstring \<Rightarrow> jsstring \<Rightarrow> bool" where
  "startsWith s p = (take (length p) s = p)"

text \<open>
  \<open>Buffer.from(s, 'utf8')\<close>: the UTF-8 encoding of a string of UTF-16 code units.
  A high surrogate followed by a low surrogate is one code point of four bytes; a
  surrogate without its partner is replaced by U+FFFD (\<open>EF BF BD\<close>).
\<close>

definition utf8_replacement :: Buffer where
  "utf8_replacement = [0xEF, 0xBF, 0xBD]"

definition utf8_two :: "16 word \<Rightarrow> Buffer" where
  "utf8_two u = [0xC0 OR ucast (drop_bit 6 u), 0x80 OR ucast (u AND 0x3F)]"

definition utf8_three :: "16 word \<Rightarrow> Buffer" where
  "utf8_three u =
     [0xE0 OR ucast (drop_bit 12 u),
      0x80 OR ucast (drop_bit 6 u AND 0x3F),
      0x80 OR ucast (u AND 0x3F)]"

definition utf8_four :: "16 word \<Rightarrow> 16 word \<Rightarrow> Buffer" where
  "utf8_four hi lo =
     (let cp = (0x10000 :: 32 word) + push_bit 10 (ucast (hi AND 0x3FF)) + ucast (lo AND 0x3FF)
      in [0xF0 OR ucast (drop_bit 18 cp),
          0x80 OR ucast (drop_bit 12 cp AND 0x3F),
          0x80 OR ucast (drop_bit 6 cp AND 0x3F),
          0x80 OR ucast (cp AND 0x3F)])"

definition is_high_surrogate :: "16 word \<Rightarrow> bool" where
  "is_high_surrogate u = (0xD800 \<le> u \<and> u \<le> 0xDBFF)"

definition is_low_surrogate :: "16 word \<Rightarrow> bool" where
  "is_low_surrogate u = (0xDC00 \<le> u \<and> u \<le> 0xDFFF)"

fun utf8_encode :: "jsstring \<Rightarrow> Buffer" where
  "utf8_encode [] = []"
| "utf8_encode [u] =
     (if u < 0x80 then [ucast u]
      else if u < 0x800 then utf8_two u
      else if is_high_surrogate u \<or> is_low_surrogate u then utf8_replacement
      else utf8_three u)"
| "utf8_encode (u # v # vs) =
     (if u < 0x80 then ucast u # utf8_encode (v # vs)
      else if u < 0x800 then utf8_two u @ utf8_encode (v # vs)
      else if is_high_surrogate u \<and> is_low_surrogate v then utf8_four u v @ utf8_encode vs
      else if is_high_surrogate u \<or> is_low_surrogate u then utf8_replacement @ utf8_encode (v # vs)
      else utf8_three u @ utf8_encode (v # vs))"

section \<open>The \<open>crypto\<close> module of Node.js\<close>

subsection \<open>SHA-256 (FIPS 180-4)\<close>

definition rotr :: "nat \<Rightarrow> 32 word \<Rightarrow> 32 word" where
  "rotr n x = drop_bit n x OR push_bit (32 - n) x"

definition Ch :: "32 word \<Rightarrow> 32 word \<Rightarrow> 32 word \<Rightarrow> 32 word" where
  "Ch x y z = (x AND y) XOR (NOT x AND z)"

definition Maj :: "32 word \<Rightarrow> 32 word \<Rightarrow> 32 word \<Rightarrow> 32 word" where
  "Maj x y z = (x AND y) XOR (x AND z) XOR (y AND z)"

definition bsig0 :: "32 word \<Rightarrow> 32 word" where
  "bsig0 x = rotr 2 x XOR rotr 13 x XOR rotr 22 x"

definition bsig1 :: "32 word \<Rightarrow> 32 word" where
  "bsig1 x = rotr 6 x XOR rotr 11 x XOR rotr 25 x"

definition ssig0 :: "32 word \<Rightarrow> 32 word" where
  "ssig0 x = rotr 7 x XOR rotr 18 x XOR drop_bit 3 x"

definition ssig1 :: "32 word \<Rightarrow> 32 word" where
  "ssig1 x = rotr 17 x XOR rotr 19 x XOR drop_bit 10 x"

text \<open>
  The round constants: for each of the first sixty-four primes, the first thirty-two
  bits of the fractional part of its cube root.  The table pairs each prime with its
  constant.
\<close>

definition K256_table :: "(nat \<times> 32 word) list" where
  "K256_table =
  [(2, 0x428a2f98), (3, 0x71374491), (5, 0xb5c0fbcf), (7, 0xe9b5dba5),
   (11, 0x3956c25b), (13, 0x59f111f1), (17, 0x923f82a4), (19, 0xab1c5ed5),
   (23, 0xd807aa98), (29, 0x12835b01), (31, 0x243185be), (37, 0x550c7dc3),
   (41, 0x72be5d74), (43, 0x80deb1fe), (47, 0x9bdc06a7), (53, 0xc19bf174),
   (59, 0xe49b69c1), (61, 0xefbe4786), (67, 0x0fc19dc6), (71, 0x240ca1cc),
   (73, 0x2de92c6f), (79, 0x4a7484aa), (83, 0x5cb0a9dc), (89, 0x76f988da),
   (97, 0x983e5152), (101, 0xa831c66d), (103, 0xb00327c8), (107, 0xbf597fc7),
   (109, 0xc6e00bf3), (113, 0xd5a79147), (127, 0x06ca6351), (131, 0x14292967),
   (137, 0x27b70a85), (139, 0x2e1b2138), (149, 0x4d2c6dfc), (151, 0x53380d13),
   (157, 0x650a7354), (163, 0x766a0abb), (167, 0x81c2c92e), (173, 0x92722c85),
   (179, 0xa2bfe8a1), (181, 0xa81a664b), (191, 0xc24b8b70), (193, 0xc76c51a3),
   (197, 0xd192e819), (199, 0xd6990624), (211, 0xf40e3585), (223, 0x106aa070),
   (227, 0x19a4c116), (229, 0x1e376c08), (233, 0x2748774c), (239, 0x34b0bcb5),
   (241, 0x391c0cb3), (251, 0x4ed8aa4a), (257, 0x5b9cca4f), (263, 0x682e6ff3),
   (269, 0x748f82ee), (271, 0x78a5636f), (277, 0x84c87814), (281, 0x8cc70208),
   (283, 0x90befffa), (293, 0xa4506ceb), (307, 0xbef9a3f7), (311, 0xc67178f2)]"

definition K256 :: "32 word list" where
  "K256 = map snd K256_table"

text \<open>
  \<open>root_bits r p k\<close>: \<open>k\<close> is the first thirty-two bits of the fractional part of
  the \<open>r\<close>-th root of \<open>p\<close>, that is, for the integer part \<open>i\<close> of the root,
  \<open>i * 2^32 + k\<close> is the integer part of the root times \<open>2^32\<close>.  The roots of
  the primes of the tables are below 8.
\<close>

definition root_bits :: "nat \<Rightarrow> nat \<Rightarrow> 32 word \<Rightarrow> bool" where
  "root_bits r p k =
     list_ex (\<lambda>i. (i * 2 ^ 32 + unat k) ^ r \<le> p * 2 ^ (32 * r) \<and>
                  p * 2 ^ (32 * r) < (i * 2 ^ 32 + unat k + 1) ^ r)
       [0, 1, 2, 3, 4, 5, 6, 7]"

definition is_prime :: "nat \<Rightarrow> bool" where
  "is_prime n = (1 < n \<and> list_all (\<lambda>d. \<not> d dvd n) [2..<n])"

datatype sha_state =
  ShaState "32 word" "32 word" "32 word" "32 word" "32 word" "32 word" "32 word" "32 word"

definition sha256_init :: sha_state where
  "sha256_init =
     ShaState 0x6a09e667 0xbb67ae85 0x3c6ef372 0xa54ff53a
              0x510e527f 0x9b05688c 0x1f83d9ab 0x5be0cd19"

text \<open>Big-endian conversions between bytes and words.\<close>

definition be32 ::
  "byte \<Rightarrow> byte \<Rightarrow> byte \<Rightarrow> byte \<Rightarrow> 32 word" where
  "be32 a b c d =
     push_bit 24 (ucast a) OR push_bit 16 (ucast b) OR push_bit 8 (ucast c) OR ucast d"

definition bytes_of_word32 :: "32 word \<Rightarrow> Buffer" where
  "bytes_of_word32 w =
     [ucast (drop_bit 24 w), ucast (drop_bit 16 w), ucast (drop_bit 8 w), ucast w]"

definition bytes_of_word64 :: "64 word \<Rightarrow> Buffer" where
  "bytes_of_word64 w =
     [ucast (drop_bit 56 w), ucast (drop_bit 48 w), ucast (drop_bit 40 w),
      ucast (drop_bit 32 w), ucast (drop_bit 24 w), ucast (drop_bit 16 w),
      ucast (drop_bit 8 w), ucast w]"

fun words_of_bytes :: "Buffer \<Rightarrow> 32 word list" where
  "words_of_bytes (a # b # c # d # rest) = be32 a b c d # words_of_bytes rest"
| "words_of_bytes _ = []"

text \<open>
  Padding: the bit \<open>1\<close>, then zeros up to 56 modulo 64 bytes, then the length of the
  message in bits as a 64-bit big-endian number.
\<close>

definition sha256_pad :: "Buffer \<Rightarrow> Buffer" where
  "sha256_pad m =
     m @ [0x80] @ replicate ((119 - length m mod 64) mod 64) 0
       @ bytes_of_word64 (word_of_nat (8 * length m))"

fun blocks64 :: "Buffer \<Rightarrow> Buffer list" where
  "blocks64 [] = []"
| "blocks64 (x # xs) = take 64 (x # xs) # blocks64 (drop 63 xs)"

text \<open>The message schedule: sixteen words of the block extended to sixty-four.\<close>

fun schedule :: "nat \<Rightarrow> 32 word list \<Rightarrow> 32 word list" where
  "schedule 0 w = w"
| "schedule (Suc n) w =
     schedule n
       (w @ [ssig1 (w ! (length w - 2)) + w ! (length w - 7)
             + ssig0 (w ! (length w - 15)) + w ! (length w - 16)])"

fun sha256_round :: "sha_state \<Rightarrow> 32 word \<times> 32 word \<Rightarrow> sha_state" where
  "sha256_round (ShaState a b c d e f g h) (k, w) =
     (let t1 = h + bsig1 e + Ch e f g + k + w;
          t2 = bsig0 a + Maj a b c
      in ShaState (t1 + t2) a b c (d + t1) e f g)"

fun sha_add :: "sha_state \<Rightarrow> sha_state \<Rightarrow> sha_state" where
  "sha_add (ShaState a b c d e f g h) (ShaState a' b' c' d' e' f' g' h') =
     ShaState (a + a') (b + b') (c + c') (d + d') (e + e') (f + f') (g + g') (h + h')"

definition sha256_compress :: "sha_state \<Rightarrow> Buffer \<Rightarrow> sha_state" where
  "sha256_compress s block =
     sha_add s (foldl sha256_round s (zip K256 (schedule 48 (words_of_bytes block))))"

fun bytes_of_state :: "sha_state \<Rightarrow> Buffer" where
  "bytes_of_state (ShaState a b c d e f g h) =
     concat (map bytes_of_word32 [a, b, c, d, e, f, g, h])"

definition sha256 :: "Buffer \<Rightarrow> Buffer" where
  "sha256 m = bytes_of_state (foldl sha256_compress sha256_init (blocks64 (sha256_pad m)))"

subsection \<open>HMAC (RFC 2104) with SHA-256 and the hexadecimal digest\<close>

definition hmac_key_block :: "Buffer \<Rightarrow> Buffer" where
  "hmac_key_block key =
     (let k = (if length key > 64 then sha256 key else key)
      in k @ replicate (64 - length k) 0)"

definition hmac_sha256 :: "Buffer \<Rightarrow> Buffer \<Rightarrow> Buffer" where
  "hmac_sha256 key msg =
     (let kb = hmac_key_block key
      in sha256 (map (\<lambda>b. b XOR 0x5c) kb @ sha256 (map (\<lambda>b. b XOR 0x36) kb @ msg)))"

definition hex_digits :: jsstring where
  "hex_digits = js ''0123456789abcdef''"

definition hex_digit :: "byte \<Rightarrow> 16 word" where
  "hex_digit n = hex_digits ! unat n"

definition hex_of_byte :: "byte \<Rightarrow> jsstring" where
  "hex_of_byte b = [hex_digit (drop_bit 4 b), hex_digit (b AND 0x0F)]"

definition hex_encode :: "Buffer \<Rightarrow> jsstring" where
  "hex_encode bs = concat (map hex_of_byte bs)"

text \<open>
  \<open>hexHmacSha256 k p\<close> is what
  \<open>crypto.createHmac('sha256', k).update(p).digest('hex')\<close> returns: a string key is
  encoded as UTF-8.
\<close>

definition hexHmacSha256 :: "jsstring \<Rightarrow> Buffer \<Rightarrow> jsstring" where
  "hexHmacSha256 k p = hex_encode (hmac_sha256 (utf8_encode k) p)"

text \<open>
  The part of the \<open>crypto\<close> module that the verifier imports.
  \<open>createHmac_digest_hex alg key data\<close> stands for
  \<open>crypto.createHmac(alg, key).update(data).digest('hex')\<close>; both operations may throw.
\<close>

record crypto_module =
  createHmac_digest_hex :: "jsstring \<Rightarrow> jsstring \<Rightarrow> Buffer \<Rightarrow> js_error + jsstring"
  timingSafeEqual :: "Buffer \<Rightarrow> Buffer \<Rightarrow> js_error + bool"

text \<open>
  Node's implementation.  Of the digest algorithms only \<open>sha256\<close>, the one the
  library asks for, is modelled; any other name is answered as an unknown digest, a
  \<open>TypeError\<close>.
  \<open>crypto.timingSafeEqual\<close> throws a \<open>RangeError\<close> on buffers of different
  lengths, and otherwise accumulates the XOR of every pair of bytes.
\<close>

definition node_createHmac_digest_hex ::
  "jsstring \<Rightarrow> jsstring \<Rightarrow> Buffer \<Rightarrow> js_error + jsstring" where
  "node_createHmac_digest_hex alg key data =
     (if alg = js ''sha256'' then Inr (hexHmacSha256 key data)
      else Inl (new_TypeError (js ''Invalid digest: '' @ alg)))"

definition xor_accumulate :: "Buffer \<Rightarrow> Buffer \<Rightarrow> byte" where
  "xor_accumulate a b = foldl (\<lambda>acc (x, y). acc OR (x XOR y)) 0 (zip a b)"

definition node_timingSafeEqual :: "Buffer \<Rightarrow> Buffer \<Rightarrow> js_error + bool" where
  "node_timingSafeEqual a b =
     (if length a \<noteq> length b
      then Inl (new_RangeError (js ''Input buffers must have the same byte length''))
      else Inr (xor_accumulate a b = 0))"

definition node_crypto :: crypto_module where
  "node_crypto =
     \<lparr> createHmac_digest_hex = node_createHmac_digest_hex,
       timingSafeEqual = node_timingSafeEqual \<rparr>"

section \<open>The webhook signature verifier\<close>

text \<open>
  \<open>verifySignature\<close> of the source.  The \<open>crypto\<close> module it imports is the first
  argument.  The lines written by \<open>console.log\<close> are the state: the function takes
  the console and returns it with the result, which is \<open>Inr\<close> of the boolean returned
  or \<open>Inl\<close> of the error thrown.
\<close>

type_synonym console = "jsstring list"

definition console_log :: "jsstring \<Rightarrow> console \<Rightarrow> console" where
  "console_log line con = con @ [line]"

definition verifySignature ::
  "crypto_module \<Rightarrow> Buffer \<Rightarrow> jsstring \<Rightarrow> jsstring \<Rightarrow> console \<Rightarrow> (js_error + bool) \<times> console" where
  "verifySignature crypto payload signature secretKey con =
     (if signature = [] then (Inr False, con)
      else
        let sigPrefix = js '''';
            sigHashAlg = js ''sha256''
        in case createHmac_digest_hex crypto sigHashAlg secretKey payload of
             Inl e \<Rightarrow> (Inl e, con)
           | Inr computedSignature \<Rightarrow>
               let digest = utf8_encode (sigPrefix @ computedSignature);
                   signatureBuffer = utf8_encode signature
               in if length signatureBuffer \<noteq> length digest
                  then (Inl (new_Error (js ''The signature is invalid.'')), con)
                  else (case timingSafeEqual crypto digest signatureBuffer of
                          Inl e \<Rightarrow> (Inl e, con)
                        | Inr equal \<Rightarrow>
                            if \<not> equal
                            then (Inl (new_Error (js ''The signature is invalid.'')), con)
                            else (Inr True, console_log (js ''The signature is valid'') con)))"

section \<open>The REST client\<close>

subsection \<open>The platform: \<open>fetch\<close>, \<open>Response\<close> and \<open>JSON\<close>\<close>

text \<open>
  \<open>Number_toString\<close> renders a number in a template literal: decimal digits, with a
  minus sign for a negative number.
\<close>

fun decimal_digits :: "nat \<Rightarrow> jsstring" where
  "decimal_digits n =
     (if n < 10 then [0x30 + of_nat n]
      else decimal_digits (n div 10) @ [0x30 + of_nat (n mod 10)])"

declare decimal_digits.simps [simp del]

definition Number_toString :: "int \<Rightarrow> jsstring" where
  "Number_toString n =
     (if n < 0 then js ''-'' @ decimal_digits (nat (- n)) else decimal_digits (nat n))"

text \<open>
  The options handed to \<open>fetch\<close>, and the response it resolves to.  \<open>Response.ok\<close>
  is true for the statuses 200 to 299; \<open>json\<close> is the outcome of
  \<open>response.json()\<close>, the parsed body or the error of parsing it.
\<close>

record RequestInit =
  "method" :: jsstring
  headers :: "(jsstring \<times> jsstring) list"
  body :: "jsstring option"

record 'j Response =
  status :: int
  statusText :: jsstring
  json :: "js_error + 'j"

definition ok :: "'j Response \<Rightarrow> bool" where
  "ok response = (200 \<le> status response \<and> status response \<le> 299)"

text \<open>
  The state of the network is the list of requests issued so far, oldest first.
  The globals are parameters.  \<open>JSON_stringify\<close> serialises a body of type \<open>'b\<close>:
  \<open>Inr\<close> the JSON text, or \<open>Inl\<close> the \<open>TypeError\<close> that \<open>JSON.stringify\<close> throws
  on a value it cannot serialise (a \<open>BigInt\<close>, a cyclic object), which the type
  \<open>Record<string, any>\<close> of the metadata admits.  \<open>fetch_settles log url init\<close> is what
  the call \<open>fetch(url, init)\<close> settles to after the requests of \<open>log\<close>: \<open>Inl\<close> a
  rejection, \<open>Inr\<close> a response.
\<close>

type_synonym http_log = "(jsstring \<times> RequestInit) list"

record ('b, 'j) globals =
  JSON_stringify :: "'b \<Rightarrow> js_error + jsstring"
  fetch_settles :: "http_log \<Rightarrow> jsstring \<Rightarrow> RequestInit \<Rightarrow> js_error + 'j Response"

definition fetch ::
  "('b, 'j) globals \<Rightarrow> jsstring \<Rightarrow> RequestInit \<Rightarrow> http_log \<Rightarrow> (js_error + 'j Response) \<times> http_log" where
  "fetch g url init log = (fetch_settles g log url init, log @ [(url, init)])"

subsection \<open>Construction\<close>

text \<open>
  The module \<open>consts\<close> exports the two base URLs; the model takes them as a
  parameter.
\<close>

record consts_module =
  CHARGILY_TEST_URL :: jsstring
  CHARGILY_LIVE_URL :: jsstring

datatype mode = Test | Live

record ChargilyClientOptions =
  api_key :: jsstring
  mode :: mode

record ChargilyClient =
  this_api_key :: jsstring
  this_base_url :: jsstring

definition constructor ::
  "consts_module \<Rightarrow> ChargilyClientOptions \<Rightarrow> ChargilyClient" where
  "constructor consts_mod options =
     \<lparr> this_api_key = api_key options,
       this_base_url =
         (if mode options = Test then CHARGILY_TEST_URL consts_mod
          else CHARGILY_LIVE_URL consts_mod) \<rparr>"

subsection \<open>The request dispatcher\<close>

text \<open>
  \<open>request\<close>: the method defaults to \<open>GET\<close> (\<open>None\<close> is the omitted argument), and
  a body is serialised unless it is \<open>undefined\<close> (\<open>None\<close>).  The serialisation stands
  before the \<open>try\<close> block: when \<open>JSON.stringify\<close> throws, its error leaves
  \<open>request\<close> as it is and no request is issued.  An error raised inside the \<open>try\<close>
  block, by \<open>fetch\<close> or for a response that is not \<open>ok\<close>, is caught and thrown again
  inside a new \<open>Error\<close>.  The promise of \<open>response.json()\<close> is returned without
  \<open>await\<close>, so its rejection is not caught.
\<close>

definition request ::
  "('b, 'j) globals \<Rightarrow> ChargilyClient \<Rightarrow> jsstring \<Rightarrow> jsstring option \<Rightarrow> 'b option \<Rightarrow>
   http_log \<Rightarrow> (js_error + 'j) \<times> http_log" where
  "request g this endpoint method_arg body_arg log =
     (let method_used = (case method_arg of None \<Rightarrow> js ''GET'' | Some m \<Rightarrow> m);
          url = this_base_url this @ js ''/'' @ endpoint;
          headers_used =
            [(js ''Authorization'', js ''Bearer '' @ this_api_key this),
             (js ''Content-Type'', js ''application/json'')];
          fetchOptions = \<lparr> method = method_used, headers = headers_used, body = None \<rparr>;
          serialised =
            (case body_arg of
               None \<Rightarrow> Inr fetchOptions
             | Some b \<Rightarrow>
                 (case JSON_stringify g b of
                    Inl thrown \<Rightarrow> Inl thrown
                  | Inr json_text \<Rightarrow> Inr (fetchOptions \<lparr> body := Some json_text \<rparr>)))
      in case serialised of
           Inl thrown \<Rightarrow> (Inl thrown, log)
         | Inr fetchOptions' \<Rightarrow>
             (case fetch g url fetchOptions' log of
                (Inl error, log') \<Rightarrow>
                  (Inl (new_Error (js ''Failed to make API request: '' @ error_toString error)),
                   log')
              | (Inr response, log') \<Rightarrow>
                  if \<not> ok response
                  then (Inl (new_Error (js ''Failed to make API request: '' @
                          error_toString (new_Error
                            (js ''API request failed with status ''
                               @ Number_toString (status response)
                               @ js '': '' @ statusText response)))), log')
                  else (json response, log')))"

subsection \<open>The public methods\<close>

text \<open>
  Each method hands an endpoint, an HTTP method and possibly a body to \<open>request\<close>.
  The data of a create or update call is only passed on, so its type is the type
  variable \<open>'b\<close> of the body.  A page size is optional, with the default 10.
\<close>

type_synonym 'j api_call = "http_log \<Rightarrow> (js_error + 'j) \<times> http_log"

definition GET :: "jsstring option" where "GET = Some (js ''GET'')"
definition POST :: "jsstring option" where "POST = Some (js ''POST'')"
definition PATCH :: "jsstring option" where "PATCH = Some (js ''PATCH'')"
definition DELETE :: "jsstring option" where "DELETE = Some (js ''DELETE'')"

definition default_per_page :: "int option \<Rightarrow> int" where
  "default_per_page per_page = (case per_page of None \<Rightarrow> 10 | Some n \<Rightarrow> n)"

definition getBalance ::
  "('b, 'j) globals \<Rightarrow> ChargilyClient \<Rightarrow> 'j api_call" where
  "getBalance g this = request g this (js ''balance'') GET None"

definition createCustomer ::
  "('b, 'j) globals \<Rightarrow> ChargilyClient \<Rightarrow> 'b \<Rightarrow> 'j api_call" where
  "createCustomer g this customer_data = request g this (js ''customers'') POST (Some customer_data)"

definition getCustomer ::
  "('b, 'j) globals \<Rightarrow> ChargilyClient \<Rightarrow> jsstring \<Rightarrow> 'j api_call" where
  "getCustomer g this customer_id = request g this (js ''customers/'' @ customer_id) GET None"

definition updateCustomer ::
  "('b, 'j) globals \<Rightarrow> ChargilyClient \<Rightarrow> jsstring \<Rightarrow> 'b \<Rightarrow> 'j api_call" where
  "updateCustomer g this customer_id update_data =
     request g this (js ''customers/'' @ customer_id) PATCH (Some update_data)"

definition deleteCustomer ::
  "('b, 'j) globals \<Rightarrow> ChargilyClient \<Rightarrow> jsstring \<Rightarrow> 'j api_call" where
  "deleteCustomer g this customer_id = request g this (js ''customers/'' @ customer_id) DELETE None"

definition listCustomers ::
  "('b, 'j) globals \<Rightarrow> ChargilyClient \<Rightarrow> int option \<Rightarrow> 'j api_call" where
  "listCustomers g this per_page =
     request g this (js ''customers?per_page='' @ Number_toString (default_per_page per_page)) GET None"

definition createProduct ::
  "('b, 'j) globals \<Rightarrow> ChargilyClient \<Rightarrow> 'b \<Rightarrow> 'j api_call" where
  "createProduct g this product_data = request g this (js ''products'') POST (Some product_data)"

definition updateProduct ::
  "('b, 'j) globals \<Rightarrow> ChargilyClient \<Rightarrow> jsstring \<Rightarrow> 'b \<Rightarrow> 'j api_call" where
  "updateProduct g this product_id update_data =
     request g this (js ''products/'' @ product_id) POST (Some update_data)"

definition getProduct ::
  "('b, 'j) globals \<Rightarrow> ChargilyClient \<Rightarrow> jsstring \<Rightarrow> 'j api_call" where
  "getProduct g this product_id = request g this (js ''products/'' @ product_id) GET None"

definition listProducts ::
  "('b, 'j) globals \<Rightarrow> ChargilyClient \<Rightarrow> int option \<Rightarrow> 'j api_call" where
  "listProducts g this per_page =
     request g this (js ''products?per_page='' @ Number_toString (default_per_page per_page)) GET None"

definition deleteProduct ::
  "('b, 'j) globals \<Rightarrow> ChargilyClient \<Rightarrow> jsstring \<Rightarrow> 'j api_call" where
  "deleteProduct g this product_id = request g this (js ''products/'' @ product_id) DELETE None"

definition getProductPrices ::
  "('b, 'j) globals \<Rightarrow> ChargilyClient \<Rightarrow> jsstring \<Rightarrow> int option \<Rightarrow> 'j api_call" where
  "getProductPrices g this product_id per_page =
     request g this
       (js ''products/'' @ product_id @ js ''/prices?per_page=''
          @ Number_toString (default_per_page per_page)) GET None"

definition createPrice ::
  "('b, 'j) globals \<Rightarrow> ChargilyClient \<Rightarrow> 'b \<Rightarrow> 'j api_call" where
  "createPrice g this price_data = request g this (js ''prices'') POST (Some price_data)"

definition updatePrice ::
  "('b, 'j) globals \<Rightarrow> ChargilyClient \<Rightarrow> jsstring \<Rightarrow> 'b \<Rightarrow> 'j api_call" where
  "updatePrice g this price_id update_data =
     request g this (js ''prices/'' @ price_id) POST (Some update_data)"

definition getPrice ::
  "('b, 'j) globals \<Rightarrow> ChargilyClient \<Rightarrow> jsstring \<Rightarrow> 'j api_call" where
  "getPrice g this price_id = request g this (js ''prices/'' @ price_id) GET None"

definition listPrices ::
  "('b, 'j) globals \<Rightarrow> ChargilyClient \<Rightarrow> int option \<Rightarrow> 'j api_call" where
  "listPrices g this per_page =
     request g this (js ''prices?per_page='' @ Number_toString (default_per_page per_page)) GET None"

subsection \<open>Checkouts and payment links\<close>

text \<open>
  \<open>CreateCheckoutParams\<close> of \<open>types/param.ts\<close>; an optional property is an
  \<open>option\<close>, \<open>None\<close> when it is absent.  The property \<open>locale\<close> is the field
  \<open>checkout_locale\<close>, and the type of the metadata is a type variable.
\<close>

record CheckoutItemParams =
  price :: jsstring
  quantity :: int

datatype locale_code = Ar | En | Fr

record 'm CreateCheckoutParams =
  items :: "CheckoutItemParams list option"
  amount :: "int option"
  currency :: "jsstring option"
  payment_method :: "jsstring option"
  success_url :: jsstring
  failure_url :: "jsstring option"
  webhook_endpoint :: "jsstring option"
  description :: "jsstring option"
  checkout_locale :: "locale_code option"
  pass_fees_to_customer :: "bool option"
  customer_id :: "jsstring option"
  shipping_address :: "jsstring option"
  collect_shipping_address :: "bool option"
  metadata :: "'m option"

text \<open>
  What \<open>!x\<close> negates: an absent property is falsy, an array is truthy even when
  empty, a number is falsy when it is 0 and a string when it is empty.
\<close>

definition truthy_array :: "'a list option \<Rightarrow> bool" where
  "truthy_array x = (x \<noteq> None)"

definition truthy_number :: "int option \<Rightarrow> bool" where
  "truthy_number x = (case x of None \<Rightarrow> False | Some n \<Rightarrow> n \<noteq> 0)"

definition truthy_string :: "jsstring option \<Rightarrow> bool" where
  "truthy_string x = (case x of None \<Rightarrow> False | Some s \<Rightarrow> s \<noteq> [])"

definition createCheckout ::
  "('m CreateCheckoutParams, 'j) globals \<Rightarrow> ChargilyClient \<Rightarrow> 'm CreateCheckoutParams \<Rightarrow>
   http_log \<Rightarrow> (js_error + 'j) \<times> http_log" where
  "createCheckout g this checkout_data log =
     (if \<not> startsWith (success_url checkout_data) (js ''http'') \<and>
         \<not> startsWith (success_url checkout_data) (js ''https'')
      then (Inl (new_Error (js ''Invalid success_url, it must begin with http or https.'')), log)
      else if \<not> truthy_array (items checkout_data) \<and>
              (\<not> truthy_number (amount checkout_data) \<or> \<not> truthy_string (currency checkout_data))
      then (Inl (new_Error
             (js ''The items field is required when amount and currency are not present.'')), log)
      else request g this (js ''checkouts'') POST (Some checkout_data) log)"

definition getCheckout ::
  "('b, 'j) globals \<Rightarrow> ChargilyClient \<Rightarrow> jsstring \<Rightarrow> 'j api_call" where
  "getCheckout g this checkout_id = request g this (js ''checkouts/'' @ checkout_id) GET None"

definition listCheckouts ::
  "('b, 'j) globals \<Rightarrow> ChargilyClient \<Rightarrow> int option \<Rightarrow> 'j api_call" where
  "listCheckouts g this per_page =
     request g this (js ''checkouts?per_page='' @ Number_toString (default_per_page per_page)) GET None"

definition getCheckoutItems ::
  "('b, 'j) globals \<Rightarrow> ChargilyClient \<Rightarrow> jsstring \<Rightarrow> int option \<Rightarrow> 'j api_call" where
  "getCheckoutItems g this checkout_id per_page =
     request g this
       (js ''checkouts/'' @ checkout_id @ js ''/items?per_page=''
          @ Number_toString (default_per_page per_page)) GET None"

definition expireCheckout ::
  "('b, 'j) globals \<Rightarrow> ChargilyClient \<Rightarrow> jsstring \<Rightarrow> 'j api_call" where
  "expireCheckout g this checkout_id =
     request g this (js ''checkouts/'' @ checkout_id @ js ''/expire'') POST None"

definition createPaymentLink ::
  "('b, 'j) globals \<Rightarrow> ChargilyClient \<Rightarrow> 'b \<Rightarrow> 'j api_call" where
  "createPaymentLink g this payment_link_data =
     request g this (js ''payment-links'') POST (Some payment_link_data)"

definition updatePaymentLink ::
  "('b, 'j) globals \<Rightarrow> ChargilyClient \<Rightarrow> jsstring \<Rightarrow> 'b \<Rightarrow> 'j api_call" where
  "updatePaymentLink g this payment_link_id update_data =
     request g this (js ''payment-links/'' @ payment_link_id) POST (Some update_data)"

definition getPaymentLink ::
  "('b, 'j) globals \<Rightarrow> ChargilyClient \<Rightarrow> jsstring \<Rightarrow> 'j api_call" where
  "getPaymentLink g this payment_link_id =
     request g this (js ''payment-links/'' @ payment_link_id) GET None"

definition listPaymentLinks ::
  "('b, 'j) globals \<Rightarrow> ChargilyClient \<Rightarrow> int option \<Rightarrow> 'j api_call" where
  "listPaymentLinks g this per_page =
     request g this (js ''payment-links?per_page='' @ Number_toString (default_per_page per_page))
       GET None"

definition getPaymentLinkItems ::
  "('b, 'j) globals \<Rightarrow> ChargilyClient \<Rightarrow> jsstring \<Rightarrow> int option \<Rightarrow> 'j api_call" where
  "getPaymentLinkItems g this payment_link_id per_page =
     request g this
       (js ''payment-links/'' @ payment_link_id @ js ''/items?per_page=''
          @ Number_toString (default_per_page per_page)) GET None"

section \<open>Notation for concrete inputs\<close>

text \<open>The bytes of an ASCII text, as \<open>Buffer.from\<close> gives them.\<close>

definition ascii_bytes :: "string \<Rightarrow> Buffer" where
  "ascii_bytes s = map of_char s"

text \<open>The scenario of the specification: a secret, a payload and its signature.\<close>

definition scenario_secret :: jsstring where
  "scenario_secret = js ''whsec_test123''"

definition scenario_payload :: Buffer where
  \<open>scenario_payload = ascii_bytes ''{"type":"checkout.paid","id":"chk_1"}''\<close>

definition scenario_signature :: jsstring where
  "scenario_signature = js ''ae469e701e8ff90c24e1ab028eb80f7aa6f1af5c8a2ecf4d6499a774464f2fee''"

definition example_consts :: consts_module where
  "example_consts =
     \<lparr> CHARGILY_TEST_URL = js ''https://pay.chargily.net/test/api/v2'',
       CHARGILY_LIVE_URL = js ''https://pay.chargily.net/api/v2'' \<rparr>"

definition example_options :: ChargilyClientOptions where
  "example_options = \<lparr> api_key = js ''test_sk_1'', mode = Test \<rparr>"

text \<open>
  A platform whose server answers every request with the given status line, and the
  same platform with a body that \<open>JSON.stringify\<close> refuses.
\<close>

definition unserialisable :: js_error where
  "unserialisable = new_TypeError (js ''Do not know how to serialize a BigInt'')"

definition refusing_globals :: "int \<Rightarrow> jsstring \<Rightarrow> ('b, unit) globals" where
  "refusing_globals st txt =
     \<lparr> JSON_stringify = (\<lambda>_. Inl unserialisable),
       fetch_settles = (\<lambda>log url init. Inr \<lparr> status = st, statusText = txt, json = Inr () \<rparr>) \<rparr>"

definition example_globals :: "int \<Rightarrow> jsstring \<Rightarrow> ('b, unit) globals" where
  "example_globals st txt =
     \<lparr> JSON_stringify = (\<lambda>_. Inr (js ''{}'')),
       fetch_settles = (\<lambda>log url init. Inr \<lparr> status = st, statusText = txt, json = Inr () \<rparr>) \<rparr>"

definition example_checkout :: "jsstring \<Rightarrow> unit CreateCheckoutParams" where
  "example_checkout url =
     \<lparr> items = None, amount = Some 5000, currency = Some (js ''dzd''), payment_method = None,
       success_url = url, failure_url = None, webhook_endpoint = None, description = None,
       checkout_locale = None, pass_fees_to_customer = None, customer_id = None,
       shipping_address = None, collect_shipping_address = None, metadata = None \<rparr>"

section \<open>Predicates of the claims about the client\<close>

text \<open>
  \<open>surfaces_non_2xx g log outcome url init response\<close>: if the operation with this
  outcome issued the one request \<open>(url, init)\<close> after \<open>log\<close> and \<open>fetch\<close> resolved
  it to \<open>response\<close> with a status outside 200 to 299, then the operation threw the
  error of the dispatcher.
\<close>

definition surfaces_non_2xx ::
  "('b, 'j) globals \<Rightarrow> http_log \<Rightarrow> (js_error + 'j) \<times> http_log \<Rightarrow>
   jsstring \<Rightarrow> RequestInit \<Rightarrow> 'j Response \<Rightarrow> bool" where
  "surfaces_non_2xx g log outcome url init response =
     (snd outcome = log @ [(url, init)] \<and> fetch_settles g log url init = Inr response \<and>
      \<not> (200 \<le> status response \<and> status response \<le> 299) \<longrightarrow>
      fst outcome = Inl (new_Error
        (js ''Failed to make API request: Error: API request failed with status ''
           @ Number_toString (status response) @ js '': '' @ statusText response)))"

text \<open>
  \<open>targets_base_with_bearer\<close>: the URL of a request is the base URL of the mode, a
  slash and an endpoint, and its \<open>Authorization\<close> header is \<open>Bearer\<close> and the API
  key.  \<open>issues_only P log log'\<close>: \<open>log'\<close> is \<open>log\<close> followed by requests that all
  satisfy \<open>P\<close>.
\<close>

definition base_url_of ::
  "consts_module \<Rightarrow> ChargilyClientOptions \<Rightarrow> jsstring" where
  "base_url_of consts_mod options =
     (if mode options = Test then CHARGILY_TEST_URL consts_mod else CHARGILY_LIVE_URL consts_mod)"

definition targets_base_with_bearer ::
  "consts_module \<Rightarrow> ChargilyClientOptions \<Rightarrow> jsstring \<times> RequestInit \<Rightarrow> bool" where
  "targets_base_with_bearer consts_mod options req =
     (startsWith (fst req) (base_url_of consts_mod options @ js ''/'') \<and>
      map_of (headers (snd req)) (js ''Authorization'') = Some (js ''Bearer '' @ api_key options))"

definition issues_only ::
  "(jsstring \<times> RequestInit \<Rightarrow> bool) \<Rightarrow> http_log \<Rightarrow> http_log \<Rightarrow> bool" where
  "issues_only P log log' = (take (length log) log' = log \<and> list_all P (drop (length log) log'))"

section \<open>The constants of SHA-256\<close>

text \<open>
  The table of round constants lists the first sixty-four primes, each with the
  leading bits of its cube root; the initial hash value is made of the leading bits
  of the square roots of the first eight primes.
\<close>

lemma K256_table_primes: "map fst K256_table = filter is_prime [2..<312]"
  by (simp add: is_prime_def K256_table_def)

lemma K256_table_cube_roots: "list_all (\<lambda>(p, k). root_bits 3 p k) K256_table"
  by (simp add: K256_table_def root_bits_def)

lemma sha256_init_square_roots:
  "(case sha256_init of ShaState a b c d e f g h \<Rightarrow>
      list_all (\<lambda>(p, k). root_bits 2 p k)
        (zip [2, 3, 5, 7, 11, 13, 17, 19] [a, b, c, d, e, f, g, h]))"
  by (simp add: sha256_init_def root_bits_def)

lemma length_K256: "length K256 = 64"
  by (simp add: K256_def K256_table_def)

section \<open>Properties of the encodings\<close>

subsection \<open>The hexadecimal digest\<close>

lemma length_hex_digits: "length hex_digits = 16"
  by (simp add: hex_digits_def js_def)

lemma hex_digits_ascii: "u \<in> set hex_digits \<Longrightarrow> u < 0x80"
  by (auto simp add: hex_digits_def js_def)

lemma unat_high_nibble: "unat (drop_bit 4 (b :: byte)) < 16"
proof -
  have "unat b < 256" using unsigned_less [of b] by simp
  then have "unat b div 16 < 16" by simp
  then show ?thesis by (simp add: drop_bit_eq_div unat_div)
qed

lemma unat_low_nibble: "unat ((b :: byte) AND 0x0F) < 16"
proof -
  have "unat (b AND 0x0F) \<le> unat (0x0F :: byte)"
    by (rule word_and_le1 [THEN word_le_nat_alt [THEN iffD1]])
  then show ?thesis by simp
qed

lemma hex_of_byte_digits: "set (hex_of_byte b) \<subseteq> set hex_digits"
  by (simp add: hex_of_byte_def hex_digit_def length_hex_digits unat_high_nibble unat_low_nibble)

lemma length_hex_of_byte: "length (hex_of_byte b) = 2"
  by (simp add: hex_of_byte_def)

lemma length_hex_encode: "length (hex_encode bs) = 2 * length bs"
  by (induction bs) (simp_all add: hex_encode_def length_hex_of_byte)

lemma set_hex_encode: "set (hex_encode bs) \<subseteq> set hex_digits"
  using hex_of_byte_digits by (auto simp add: hex_encode_def)

lemma length_bytes_of_state: "length (bytes_of_state s) = 32"
  by (cases s) (simp add: bytes_of_word32_def)

lemma length_sha256: "length (sha256 m) = 32"
  by (simp add: sha256_def length_bytes_of_state)

lemma length_hmac_sha256: "length (hmac_sha256 key msg) = 32"
  by (simp add: hmac_sha256_def Let_def length_sha256)

lemma length_hexHmacSha256: "length (hexHmacSha256 k p) = 64"
  by (simp add: hexHmacSha256_def length_hex_encode length_hmac_sha256)

lemma hexHmacSha256_digits: "set (hexHmacSha256 k p) \<subseteq> set hex_digits"
  by (simp add: hexHmacSha256_def set_hex_encode)

lemma hexHmacSha256_ascii: "\<forall>u\<in>set (hexHmacSha256 k p). u < 0x80"
  using hexHmacSha256_digits [of k p] hex_digits_ascii by blast

lemma hexHmacSha256_not_Nil: "hexHmacSha256 k p \<noteq> []"
  using length_hexHmacSha256 [of k p] by auto

subsection \<open>UTF-8 of ASCII strings\<close>

lemma unat_ucast_low: "unat (ucast (u :: 16 word) :: byte) = unat u mod 256"
  by (simp add: unsigned_ucast_eq take_bit_eq_mod)

lemma ucast_ascii_less: "(u :: 16 word) < 0x80 \<Longrightarrow> (ucast u :: byte) < 0x80"
  by (simp add: word_less_nat_alt unat_ucast_low)

lemma ucast_ascii_inj:
  "(u :: 16 word) < 0x80 \<Longrightarrow> (c :: 16 word) < 0x80 \<Longrightarrow> (ucast u :: byte) = ucast c \<Longrightarrow> u = c"
proof -
  assume u: "u < 0x80" and c: "c < 0x80" and eq: "(ucast u :: byte) = ucast c"
  from eq have "unat u mod 256 = unat c mod 256"
    by (simp add: word_unat_eq_iff unat_ucast_low)
  moreover from u have "unat u < 128" by (simp add: word_less_nat_alt)
  moreover from c have "unat c < 128" by (simp add: word_less_nat_alt)
  ultimately show "u = c" by (simp add: word_unat_eq_iff)
qed

text \<open>Every sequence of more than one byte starts with a byte of 128 or more.\<close>

lemma or_high_bit: "(0x80 :: byte) \<le> k \<Longrightarrow> \<not> (k OR x) < 0x80"
proof -
  assume "(0x80 :: byte) \<le> k"
  moreover have "k \<le> k OR x" by (rule le_word_or2)
  ultimately have "0x80 \<le> k OR x" by (rule order_trans)
  then show ?thesis by simp
qed

lemma utf8_two_first: "utf8_two u @ rest = b # bs \<Longrightarrow> \<not> b < 0x80"
  by (auto simp add: utf8_two_def or_high_bit)

lemma utf8_three_first: "utf8_three u @ rest = b # bs \<Longrightarrow> \<not> b < 0x80"
  by (auto simp add: utf8_three_def or_high_bit)

lemma utf8_four_first: "utf8_four hi lo @ rest = b # bs \<Longrightarrow> \<not> b < 0x80"
  by (auto simp add: utf8_four_def Let_def or_high_bit)

lemma utf8_replacement_first: "utf8_replacement @ rest = b # bs \<Longrightarrow> \<not> b < 0x80"
  by (auto simp add: utf8_replacement_def)

lemmas utf8_first = utf8_two_first utf8_three_first utf8_four_first utf8_replacement_first
  utf8_two_first [where rest = "[]", simplified] utf8_three_first [where rest = "[]", simplified]
  utf8_replacement_first [where rest = "[]", simplified]

lemma utf8_encode_Cons_ascii:
  "utf8_encode (u # us) = b # bs \<Longrightarrow> b < 0x80 \<Longrightarrow> u < 0x80 \<and> b = ucast u \<and> bs = utf8_encode us"
  by (cases us) (auto split: if_splits dest: utf8_first)

lemma utf8_encode_eq_Nil: "utf8_encode s = [] \<Longrightarrow> s = []"
  by (induction s rule: utf8_encode.induct)
     (auto simp add: utf8_two_def utf8_three_def utf8_four_def utf8_replacement_def Let_def
           split: if_splits)

lemma utf8_encode_ascii: "\<forall>u\<in>set s. u < 0x80 \<Longrightarrow> utf8_encode s = map ucast s"
  by (induction s rule: utf8_encode.induct) simp_all

text \<open>
  Only an ASCII string itself encodes to the bytes of that ASCII string: a string
  with a code unit of 128 or more, a surrogate included, encodes to other bytes.
\<close>

lemma utf8_encode_eq_ascii:
  "\<forall>c\<in>set a. c < 0x80 \<Longrightarrow> utf8_encode s = map ucast a \<Longrightarrow> s = a"
proof (induction a arbitrary: s)
  case Nil
  then show ?case by (simp add: utf8_encode_eq_Nil)
next
  case (Cons c cs)
  from Cons.prems obtain u us where s: "s = u # us"
    by (cases s) auto
  have c: "c < 0x80" using Cons.prems by simp
  have enc: "utf8_encode (u # us) = ucast c # map ucast cs"
    using Cons.prems s by simp
  from utf8_encode_Cons_ascii [OF enc ucast_ascii_less [OF c]]
  have u: "u < 0x80" and uc: "(ucast c :: byte) = ucast u" and rest: "map ucast cs = utf8_encode us"
    by simp_all
  from Cons.IH [of us] Cons.prems rest have "us = cs" by simp
  moreover from ucast_ascii_inj [OF u c] uc have "u = c" by simp
  ultimately show ?case using s by simp
qed

lemma utf8_encode_digest_eq:
  "utf8_encode s = utf8_encode (hexHmacSha256 k p) \<longleftrightarrow> s = hexHmacSha256 k p"
  using utf8_encode_eq_ascii [OF hexHmacSha256_ascii, of s k p]
    utf8_encode_ascii [OF hexHmacSha256_ascii, of k p]
  by auto

lemma length_utf8_digest: "length (utf8_encode (hexHmacSha256 k p)) = 64"
  by (simp add: utf8_encode_ascii [OF hexHmacSha256_ascii] length_hexHmacSha256)

subsection \<open>The accumulating comparison\<close>

lemma xor_zero_eq: "x XOR y = 0 \<Longrightarrow> x = y" for x y :: byte
proof -
  assume h: "x XOR y = 0"
  have "x XOR (x XOR y) = y" by (simp flip: xor.assoc)
  with h show "x = y" by simp
qed

lemma foldl_or_zero:
  "foldl (\<lambda>acc (x, y). acc OR (x XOR y)) acc (zip a b) = (0 :: byte) \<Longrightarrow> length a = length b
   \<Longrightarrow> acc = 0 \<and> a = b"
proof (induction a arbitrary: b acc)
  case Nil
  then show ?case by simp
next
  case (Cons x xs)
  then obtain y ys where b: "b = y # ys" by (cases b) auto
  with Cons.prems have "foldl (\<lambda>acc (x, y). acc OR (x XOR y)) (acc OR (x XOR y)) (zip xs ys) = 0"
    and "length xs = length ys" by simp_all
  from Cons.IH [OF this] have "acc OR (x XOR y) = 0" and "xs = ys" by simp_all
  then show ?case using b by (simp add: or_eq_0_iff xor_zero_eq)
qed

lemma foldl_or_same:
  "foldl (\<lambda>acc (x, y). acc OR (x XOR y)) (0 :: byte) (zip a a) = 0"
  by (induction a) simp_all

lemma xor_accumulate_zero_iff:
  "length a = length b \<Longrightarrow> xor_accumulate a b = 0 \<longleftrightarrow> a = b"
  using foldl_or_zero [of 0 a b] foldl_or_same [of a]
  by (auto simp add: xor_accumulate_def)

lemma node_timingSafeEqual_same_length:
  "length a = length b \<Longrightarrow> node_timingSafeEqual a b = Inr (a = b)"
  by (simp add: node_timingSafeEqual_def xor_accumulate_zero_iff)

section \<open>The verifier with Node's \<open>crypto\<close>\<close>

text \<open>
  The three outcomes of \<open>verifySignature\<close>: \<open>false\<close> for the empty signature,
  \<open>true\<close> and a line on the console for the digest itself, and the error for
  every other signature.
\<close>

lemma verifySignature_node:
  "verifySignature node_crypto payload signature secretKey con =
     (if signature = [] then (Inr False, con)
      else if signature = hexHmacSha256 secretKey payload
      then (Inr True, con @ [js ''The signature is valid''])
      else (Inl (new_Error (js ''The signature is invalid.'')), con))"
proof (cases "signature = []")
  case True
  then show ?thesis by (simp add: verifySignature_def)
next
  case False
  let ?d = "utf8_encode (hexHmacSha256 secretKey payload)"
  let ?s = "utf8_encode signature"
  have hm: "createHmac_digest_hex node_crypto (js ''sha256'') secretKey payload
              = Inr (hexHmacSha256 secretKey payload)"
    by (simp add: node_crypto_def node_createHmac_digest_hex_def)
  have ts: "timingSafeEqual node_crypto = node_timingSafeEqual"
    by (simp add: node_crypto_def)
  have empty: "js '''' = []" by (simp add: js_def)
  show ?thesis
  proof (cases "length ?s = length ?d")
    case len: True
    then have "node_timingSafeEqual ?d ?s = Inr (?d = ?s)"
      by (simp add: node_timingSafeEqual_same_length)
    moreover have "?d = ?s \<longleftrightarrow> signature = hexHmacSha256 secretKey payload"
      using utf8_encode_digest_eq [of signature secretKey payload] by auto
    ultimately show ?thesis using False len
      by (simp add: verifySignature_def Let_def hm ts empty console_log_def)
  next
    case len: False
    then have "signature \<noteq> hexHmacSha256 secretKey payload" by auto
    then show ?thesis using False len
      by (simp add: verifySignature_def Let_def hm ts empty)
  qed
qed

text \<open>
  The digest of the scenario, computed by the model of SHA-256 and HMAC: it is the
  value that the reference implementation of HMAC-SHA256 gives.
\<close>

lemma hmac_scenario: "hexHmacSha256 scenario_secret scenario_payload = scenario_signature"
  by code_simp

section \<open>The dispatcher\<close>

lemma Number_toString_404: "Number_toString 404 = js ''404''"
  by code_simp

lemma js_not_Nil: "s \<noteq> [] \<Longrightarrow> js s \<noteq> []"
  by (simp add: js_def)

lemma error_toString_new_Error:
  "m \<noteq> [] \<Longrightarrow> error_toString (new_Error m) = js ''Error: '' @ m"
  by (simp add: error_toString_def new_Error_def js_def)

text \<open>
  \<open>request\<close> issues exactly one request when there is no body or the body is
  serialised, whatever the answer, and none when the serialisation throws.
\<close>

lemma request_log_None:
  "snd (request g this endpoint method_arg None log) =
     log @ [(this_base_url this @ js ''/'' @ endpoint,
             \<lparr> method = (case method_arg of None \<Rightarrow> js ''GET'' | Some m \<Rightarrow> m),
               headers = [(js ''Authorization'', js ''Bearer '' @ this_api_key this),
                          (js ''Content-Type'', js ''application/json'')],
               body = None \<rparr>)]"
  by (simp add: request_def fetch_def Let_def split: sum.splits)

lemma request_log_Some:
  "JSON_stringify g b = Inr json_text \<Longrightarrow>
   snd (request g this endpoint method_arg (Some b) log) =
     log @ [(this_base_url this @ js ''/'' @ endpoint,
             \<lparr> method = (case method_arg of None \<Rightarrow> js ''GET'' | Some m \<Rightarrow> m),
               headers = [(js ''Authorization'', js ''Bearer '' @ this_api_key this),
                          (js ''Content-Type'', js ''application/json'')],
               body = Some json_text \<rparr>)]"
  by (simp add: request_def fetch_def Let_def split: sum.splits)

lemma request_stringify_throws:
  "JSON_stringify g b = Inl thrown \<Longrightarrow>
   request g this endpoint method_arg (Some b) log = (Inl thrown, log)"
  by (simp add: request_def Let_def)

lemma request_non_2xx_None:
  "fetch_settles g log (this_base_url this @ js ''/'' @ endpoint)
     \<lparr> method = (case method_arg of None \<Rightarrow> js ''GET'' | Some m \<Rightarrow> m),
       headers = [(js ''Authorization'', js ''Bearer '' @ this_api_key this),
                  (js ''Content-Type'', js ''application/json'')],
       body = None \<rparr> = Inr response \<Longrightarrow>
   \<not> (200 \<le> status response \<and> status response \<le> 299) \<Longrightarrow>
   fst (request g this endpoint method_arg None log) =
     Inl (new_Error
        (js ''Failed to make API request: Error: API request failed with status ''
           @ Number_toString (status response) @ js '': '' @ statusText response))"
proof -
  have ne: "js ''API request failed with status '' @ Number_toString (status response)
              @ js '': '' @ statusText response \<noteq> []"
    by (simp add: js_def)
  have split: "js ''Failed to make API request: Error: API request failed with status ''
     = js ''Failed to make API request: '' @ js ''Error: '' @ js ''API request failed with status ''"
    by (simp add: js_def)
  assume "fetch_settles g log (this_base_url this @ js ''/'' @ endpoint)
     \<lparr> method = (case method_arg of None \<Rightarrow> js ''GET'' | Some m \<Rightarrow> m),
       headers = [(js ''Authorization'', js ''Bearer '' @ this_api_key this),
                  (js ''Content-Type'', js ''application/json'')],
       body = None \<rparr> = Inr response"
    and "\<not> (200 \<le> status response \<and> status response \<le> 299)"
  then show ?thesis
    unfolding split
    by (simp add: request_def fetch_def Let_def ok_def error_toString_new_Error [OF ne])
qed

lemma request_non_2xx_Some:
  "JSON_stringify g b = Inr json_text \<Longrightarrow>
   fetch_settles g log (this_base_url this @ js ''/'' @ endpoint)
     \<lparr> method = (case method_arg of None \<Rightarrow> js ''GET'' | Some m \<Rightarrow> m),
       headers = [(js ''Authorization'', js ''Bearer '' @ this_api_key this),
                  (js ''Content-Type'', js ''application/json'')],
       body = Some json_text \<rparr> = Inr response \<Longrightarrow>
   \<not> (200 \<le> status response \<and> status response \<le> 299) \<Longrightarrow>
   fst (request g this endpoint method_arg (Some b) log) =
     Inl (new_Error
        (js ''Failed to make API request: Error: API request failed with status ''
           @ Number_toString (status response) @ js '': '' @ statusText response))"
proof -
  have ne: "js ''API request failed with status '' @ Number_toString (status response)
              @ js '': '' @ statusText response \<noteq> []"
    by (simp add: js_def)
  have split: "js ''Failed to make API request: Error: API request failed with status ''
     = js ''Failed to make API request: '' @ js ''Error: '' @ js ''API request failed with status ''"
    by (simp add: js_def)
  assume "JSON_stringify g b = Inr json_text"
    and "fetch_settles g log (this_base_url this @ js ''/'' @ endpoint)
     \<lparr> method = (case method_arg of None \<Rightarrow> js ''GET'' | Some m \<Rightarrow> m),
       headers = [(js ''Authorization'', js ''Bearer '' @ this_api_key this),
                  (js ''Content-Type'', js ''application/json'')],
       body = Some json_text \<rparr> = Inr response"
    and "\<not> (200 \<le> status response \<and> status response \<le> 299)"
  then show ?thesis
    unfolding split
    by (simp add: request_def fetch_def Let_def ok_def error_toString_new_Error [OF ne])
qed

lemma request_surfaces:
  "surfaces_non_2xx g log (request g this endpoint method_arg body_arg log) url init response"
proof (cases body_arg)
  case None
  show ?thesis
    unfolding surfaces_non_2xx_def None
    using request_non_2xx_None [of g log this endpoint method_arg response]
    by (auto simp add: request_log_None)
next
  case (Some b)
  show ?thesis
  proof (cases "JSON_stringify g b")
    case (Inl thrown)
    then show ?thesis
      unfolding surfaces_non_2xx_def Some by (simp add: request_stringify_throws)
  next
    case (Inr json_text)
    show ?thesis
      unfolding surfaces_non_2xx_def Some
      using request_non_2xx_Some [OF Inr, of log this endpoint method_arg response]
      by (auto simp add: request_log_Some [OF Inr])
  qed
qed

lemma createCheckout_surfaces:
  "surfaces_non_2xx g log (createCheckout g this checkout_data log) url init response"
  by (simp add: createCheckout_def request_surfaces) (simp add: surfaces_non_2xx_def)

lemma request_issues:
  "issues_only (targets_base_with_bearer consts_mod options) log
     (snd (request g (constructor consts_mod options) endpoint method_arg body_arg log))"
proof (cases body_arg)
  case None
  show ?thesis
    unfolding None
    by (simp add: request_log_None issues_only_def targets_base_with_bearer_def startsWith_def
        constructor_def base_url_of_def)
next
  case (Some b)
  show ?thesis
  proof (cases "JSON_stringify g b")
    case (Inl thrown)
    then show ?thesis
      unfolding Some by (simp add: request_stringify_throws issues_only_def)
  next
    case (Inr json_text)
    show ?thesis
      unfolding Some
      by (simp add: request_log_Some [OF Inr] issues_only_def targets_base_with_bearer_def
          startsWith_def constructor_def base_url_of_def)
  qed
qed

lemma createCheckout_issues:
  "issues_only (targets_base_with_bearer consts_mod options) log
     (snd (createCheckout g (constructor consts_mod options) checkout_data log))"
  by (simp add: createCheckout_def request_issues) (simp add: issues_only_def)

lemmas public_methods =
  getBalance_def createCustomer_def getCustomer_def updateCustomer_def deleteCustomer_def
  listCustomers_def createProduct_def updateProduct_def getProduct_def listProducts_def
  deleteProduct_def getProductPrices_def createPrice_def updatePrice_def getPrice_def
  listPrices_def getCheckout_def listCheckouts_def getCheckoutItems_def expireCheckout_def
  createPaymentLink_def updatePaymentLink_def getPaymentLink_def listPaymentLinks_def
  getPaymentLinkItems_def

lemma startsWith_append: "startsWith s (p @ q) \<Longrightarrow> startsWith s p"
proof -
  assume "startsWith s (p @ q)"
  then have h: "take (length (p @ q)) s = p @ q" by (simp add: startsWith_def)
  have "take (length p) s = take (length p) (take (length (p @ q)) s)" by simp
  also have "\<dots> = p" unfolding h by simp
  finally show ?thesis by (simp add: startsWith_def)
qed

lemma https_starts_with_http: "startsWith s (js ''https'') \<Longrightarrow> startsWith s (js ''http'')"
proof -
  have "js ''https'' = js ''http'' @ js ''s''" by (simp add: js_def)
  then show "startsWith s (js ''https'') \<Longrightarrow> startsWith s (js ''http'')"
    using startsWith_append [of s "js ''http''" "js ''s''"] by simp
qed

section \<open>Claims about the verifier\<close>

text \<open>
  C1. For every payload and every secret key, \<open>verifySignature\<close> called with the
  lowercase hexadecimal HMAC-SHA256 digest of the payload under the key as the
  signature returns \<open>true\<close>.
\<close>

theorem verifySignature_accepts_digest:
  "fst (verifySignature node_crypto payload (hexHmacSha256 secretKey payload) secretKey con) = Inr True"
  by (simp add: verifySignature_node hexHmacSha256_not_Nil)

text \<open>
  C2. For every payload and secret key, a non-empty signature other than the digest,
  whatever its length, makes \<open>verifySignature\<close> return \<open>false\<close> or throw; it never
  returns \<open>true\<close>.
\<close>

theorem verifySignature_rejects_other:
  "signature \<noteq> [] \<Longrightarrow> signature \<noteq> hexHmacSha256 secretKey payload \<Longrightarrow>
   fst (verifySignature node_crypto payload signature secretKey con) \<noteq> Inr True \<and>
   (fst (verifySignature node_crypto payload signature secretKey con) = Inr False \<or>
    (\<exists>e. fst (verifySignature node_crypto payload signature secretKey con) = Inl e))"
  by (simp add: verifySignature_node)

theorem verifySignature_rejects_other_witness:
  "js ''deadbeef'' \<noteq> [] \<and>
   js ''deadbeef'' \<noteq> hexHmacSha256 (js ''whsec_test123'') (ascii_bytes ''{}'') \<and>
   fst (verifySignature node_crypto (ascii_bytes ''{}'') (js ''deadbeef'') (js ''whsec_test123'') [])
     \<noteq> Inr True"
proof -
  have ne: "js ''deadbeef'' \<noteq> []" by (simp add: js_def)
  have "length (js ''deadbeef'') \<noteq> length (hexHmacSha256 (js ''whsec_test123'') (ascii_bytes ''{}''))"
    by (simp add: length_hexHmacSha256 js_def)
  then have other: "js ''deadbeef'' \<noteq> hexHmacSha256 (js ''whsec_test123'') (ascii_bytes ''{}'')"
    by auto
  from verifySignature_rejects_other [OF ne other, of "[]"] ne other show ?thesis by simp
qed

text \<open>
  C3. The two failures differ: for every payload and secret key the empty signature
  makes \<open>verifySignature\<close> return \<open>false\<close>, a non-empty signature that is not the
  digest makes it throw the error \<open>The signature is invalid.\<close>, and the caller can
  tell the returned \<open>false\<close> from the thrown error.
\<close>

theorem verifySignature_mixed_discipline:
  "fst (verifySignature node_crypto payload [] secretKey con) = Inr False \<and>
   (signature \<noteq> [] \<and> signature \<noteq> hexHmacSha256 secretKey payload \<longrightarrow>
      fst (verifySignature node_crypto payload signature secretKey con)
        = Inl (new_Error (js ''The signature is invalid.''))) \<and>
   (Inr False :: js_error + bool) \<noteq> Inl (new_Error (js ''The signature is invalid.''))"
  by (simp add: verifySignature_node)

theorem verifySignature_mixed_discipline_witness:
  "fst (verifySignature node_crypto [0x7B, 0x7D] [] (js ''secret'') []) = Inr False \<and>
   fst (verifySignature node_crypto [0x7B, 0x7D] (js ''00'') (js ''secret'') [])
     = Inl (new_Error (js ''The signature is invalid.''))"
proof -
  have ne: "js ''00'' \<noteq> []" by (simp add: js_def)
  have "length (js ''00'') \<noteq> length (hexHmacSha256 (js ''secret'') [0x7B, 0x7D])"
    by (simp add: length_hexHmacSha256 js_def)
  then have other: "js ''00'' \<noteq> hexHmacSha256 (js ''secret'') [0x7B, 0x7D]"
    by auto
  from verifySignature_mixed_discipline [of "[0x7B, 0x7D]" "js ''secret''" "[]" "js ''00''"] ne other
  show ?thesis by simp
qed

text \<open>
  C4. For every payload and secret key, \<open>verifySignature\<close> with the empty signature
  returns \<open>false\<close> at once: it throws nothing, writes nothing, and the result does
  not depend on the \<open>crypto\<close> module, which holds for every such module, one whose
  operations always throw included.
\<close>

theorem verifySignature_empty_signature:
  "verifySignature crypto payload [] secretKey con = (Inr False, con)"
  by (simp add: verifySignature_def)

text \<open>
  C6. The digest that is compared is the hexadecimal encoding of HMAC-SHA256 with
  the secret key as key and the payload as message: 64 characters, each a lowercase
  hexadecimal digit, with nothing put in front.  A non-empty signature is accepted
  exactly when its bytes are the bytes of this digest, so every signature whose
  byte length is not 64 is rejected.
\<close>

theorem verifySignature_digest_shape:
  "length (hexHmacSha256 secretKey payload) = 64 \<and>
   set (hexHmacSha256 secretKey payload) \<subseteq> set (js ''0123456789abcdef'') \<and>
   createHmac_digest_hex node_crypto (js ''sha256'') secretKey payload
     = Inr (hex_encode (hmac_sha256 (utf8_encode secretKey) payload)) \<and>
   (signature \<noteq> [] \<longrightarrow>
      (fst (verifySignature node_crypto payload signature secretKey con) = Inr True \<longleftrightarrow>
       utf8_encode signature = utf8_encode (hexHmacSha256 secretKey payload))) \<and>
   (length (utf8_encode signature) \<noteq> 64 \<longrightarrow>
      fst (verifySignature node_crypto payload signature secretKey con)
        = (if signature = [] then Inr False
           else Inl (new_Error (js ''The signature is invalid.''))))"
proof -
  have "length (utf8_encode signature) \<noteq> 64 \<Longrightarrow> signature \<noteq> hexHmacSha256 secretKey payload"
    using length_utf8_digest [of secretKey payload] by auto
  moreover have "createHmac_digest_hex node_crypto (js ''sha256'') secretKey payload
     = Inr (hex_encode (hmac_sha256 (utf8_encode secretKey) payload))"
    by (simp add: node_crypto_def node_createHmac_digest_hex_def hexHmacSha256_def)
  ultimately show ?thesis
    using hexHmacSha256_digits [of secretKey payload]
    by (simp add: verifySignature_node length_hexHmacSha256 utf8_encode_digest_eq
        flip: hex_digits_def)
qed

theorem verifySignature_digest_shape_witness:
  "length (utf8_encode (js ''abc'')) \<noteq> 64 \<and>
   fst (verifySignature node_crypto [] (js ''abc'') (js ''key'') [])
     = Inl (new_Error (js ''The signature is invalid.''))"
proof -
  have len: "length (utf8_encode (js ''abc'')) \<noteq> 64" by (simp add: js_def)
  have ne: "js ''abc'' \<noteq> []" by (simp add: js_def)
  from verifySignature_digest_shape [of "js ''key''" "[]" "js ''abc''" "[]"] len ne
  show ?thesis by simp
qed

text \<open>
  C7 (as amended).  The outcome of \<open>verifySignature\<close>, the boolean or the error,
  is determined by the payload, the signature and the secret key: it is the same
  whatever the console holds.  The function does write outside itself: exactly when
  it returns \<open>true\<close> it adds the line \<open>The signature is valid\<close> to the console,
  and it leaves the console as it was on every other path.
\<close>

theorem verifySignature_deterministic_logs_on_success:
  "fst (verifySignature crypto payload signature secretKey con)
     = fst (verifySignature crypto payload signature secretKey con') \<and>
   snd (verifySignature crypto payload signature secretKey con)
     = (if fst (verifySignature crypto payload signature secretKey con) = Inr True
        then con @ [js ''The signature is valid''] else con)"
  by (simp add: verifySignature_def Let_def console_log_def new_Error_def
      split: sum.splits)

text \<open>
  C7 as stated fails: in the scenario of the specification the call with the right
  signature changes the console, which was empty before the call.
\<close>

theorem verifySignature_console_counterexample:
  \<open>snd (verifySignature node_crypto
          (ascii_bytes ''{"type":"checkout.paid","id":"chk_1"}'')
          (js ''ae469e701e8ff90c24e1ab028eb80f7aa6f1af5c8a2ecf4d6499a774464f2fee'')
          (js ''whsec_test123'') []) \<noteq> []\<close>
proof -
  have "hexHmacSha256 scenario_secret scenario_payload \<noteq> []"
    by (rule hexHmacSha256_not_Nil)
  then have "snd (verifySignature node_crypto scenario_payload scenario_signature
                scenario_secret []) \<noteq> []"
    by (simp add: verifySignature_node hmac_scenario)
  then show ?thesis
    by (simp add: scenario_payload_def scenario_signature_def scenario_secret_def)
qed

section \<open>Claims about the client\<close>

text \<open>
  C8. \<open>createCheckout\<close> throws and issues no request when the \<open>success_url\<close>
  does not start with \<open>http\<close>, and when \<open>items\<close> is absent and \<open>amount\<close> or
  \<open>currency\<close> is absent.  A \<open>success_url\<close> that starts with \<open>https\<close> starts
  with \<open>http\<close>, so the second test of the first check adds nothing: every
  \<open>success_url\<close> that starts with \<open>http\<close>, \<open>httpx\<close> for one, passes the check,
  and the call goes on to the check of the items and to the request.
\<close>

theorem createCheckout_validation:
  "(\<not> startsWith (success_url checkout_data) (js ''http'') \<longrightarrow>
      createCheckout g this checkout_data log =
        (Inl (new_Error (js ''Invalid success_url, it must begin with http or https.'')), log)) \<and>
   (items checkout_data = None \<and>
    (amount checkout_data = None \<or> currency checkout_data = None) \<longrightarrow>
      createCheckout g this checkout_data log =
        (Inl (new_Error
           (if startsWith (success_url checkout_data) (js ''http'')
            then js ''The items field is required when amount and currency are not present.''
            else js ''Invalid success_url, it must begin with http or https.'')), log)) \<and>
   (startsWith (success_url checkout_data) (js ''https'') \<longrightarrow>
      startsWith (success_url checkout_data) (js ''http'')) \<and>
   (startsWith (success_url checkout_data) (js ''http'') \<longrightarrow>
      createCheckout g this checkout_data log =
        (if \<not> truthy_array (items checkout_data) \<and>
            (\<not> truthy_number (amount checkout_data) \<or> \<not> truthy_string (currency checkout_data))
         then (Inl (new_Error
                (js ''The items field is required when amount and currency are not present.'')), log)
         else request g this (js ''checkouts'') POST (Some checkout_data) log))"
  using https_starts_with_http [of "success_url checkout_data"]
  by (auto simp add: createCheckout_def truthy_array_def truthy_number_def truthy_string_def)

theorem createCheckout_validation_witness:
  "\<not> startsWith (success_url (example_checkout (js ''ftp://shop.example/ok''))) (js ''http'') \<and>
   createCheckout (example_globals 200 (js ''OK'')) (constructor example_consts example_options)
       (example_checkout (js ''ftp://shop.example/ok'')) []
     = (Inl (new_Error (js ''Invalid success_url, it must begin with http or https.'')), []) \<and>
   startsWith (success_url (example_checkout (js ''httpx''))) (js ''http'') \<and>
   fst (createCheckout (example_globals 200 (js ''OK'')) (constructor example_consts example_options)
       (example_checkout (js ''httpx'')) []) = Inr () \<and>
   items ((example_checkout (js ''https://shop.example/ok'')) \<lparr> currency := None \<rparr>) = None \<and>
   createCheckout (example_globals 200 (js ''OK'')) (constructor example_consts example_options)
       ((example_checkout (js ''https://shop.example/ok'')) \<lparr> currency := None \<rparr>) []
     = (Inl (new_Error
          (js ''The items field is required when amount and currency are not present.'')), [])"
proof -
  have ftp: "\<not> startsWith (success_url (example_checkout (js ''ftp://shop.example/ok''))) (js ''http'')"
    by (simp add: example_checkout_def startsWith_def js_def)
  have httpx: "startsWith (success_url (example_checkout (js ''httpx''))) (js ''http'')"
    by (simp add: example_checkout_def startsWith_def js_def)
  have https: "startsWith (success_url ((example_checkout (js ''https://shop.example/ok''))
                  \<lparr> currency := None \<rparr>)) (js ''http'')"
    by (simp add: example_checkout_def startsWith_def js_def)
  have absent: "items ((example_checkout (js ''https://shop.example/ok'')) \<lparr> currency := None \<rparr>) = None"
    "currency ((example_checkout (js ''https://shop.example/ok'')) \<lparr> currency := None \<rparr>) = None"
    by (simp_all add: example_checkout_def)
  have present: "\<not> (\<not> truthy_array (items (example_checkout (js ''httpx''))) \<and>
            (\<not> truthy_number (amount (example_checkout (js ''httpx''))) \<or>
             \<not> truthy_string (currency (example_checkout (js ''httpx'')))))"
    by (simp add: example_checkout_def truthy_number_def truthy_string_def js_def)
  have answered: "fst (request (example_globals 200 (js ''OK''))
       (constructor example_consts example_options) (js ''checkouts'') POST
       (Some (example_checkout (js ''httpx''))) []) = Inr ()"
    by (simp add: request_def fetch_def example_globals_def ok_def Let_def POST_def)
  from createCheckout_validation
         [where checkout_data = "example_checkout (js ''ftp://shop.example/ok'')"
            and g = "example_globals 200 (js ''OK'')"
            and this = "constructor example_consts example_options" and log = "[]"]
       createCheckout_validation
         [where checkout_data = "example_checkout (js ''httpx'')"
            and g = "example_globals 200 (js ''OK'')"
            and this = "constructor example_consts example_options" and log = "[]"]
       createCheckout_validation
         [where checkout_data = "(example_checkout (js ''https://shop.example/ok'')) \<lparr> currency := None \<rparr>"
            and g = "example_globals 200 (js ''OK'')"
            and this = "constructor example_consts example_options" and log = "[]"]
       ftp httpx https absent present answered
  show ?thesis by simp
qed

text \<open>
  C9. \<open>request\<close> and every public method built on it throw when the response to
  the request they issue has a status outside 200 to 299: the response body is not
  returned.
\<close>

theorem non_2xx_is_thrown:
  "surfaces_non_2xx g log (request g this endpoint method_arg body_arg log) url init response \<and>
   surfaces_non_2xx g log (getBalance g this log) url init response \<and>
   surfaces_non_2xx g log (createCustomer g this data log) url init response \<and>
   surfaces_non_2xx g log (getCustomer g this ident log) url init response \<and>
   surfaces_non_2xx g log (updateCustomer g this ident data log) url init response \<and>
   surfaces_non_2xx g log (deleteCustomer g this ident log) url init response \<and>
   surfaces_non_2xx g log (listCustomers g this per_page log) url init response \<and>
   surfaces_non_2xx g log (createProduct g this data log) url init response \<and>
   surfaces_non_2xx g log (updateProduct g this ident data log) url init response \<and>
   surfaces_non_2xx g log (getProduct g this ident log) url init response \<and>
   surfaces_non_2xx g log (listProducts g this per_page log) url init response \<and>
   surfaces_non_2xx g log (deleteProduct g this ident log) url init response \<and>
   surfaces_non_2xx g log (getProductPrices g this ident per_page log) url init response \<and>
   surfaces_non_2xx g log (createPrice g this data log) url init response \<and>
   surfaces_non_2xx g log (updatePrice g this ident data log) url init response \<and>
   surfaces_non_2xx g log (getPrice g this ident log) url init response \<and>
   surfaces_non_2xx g log (listPrices g this per_page log) url init response \<and>
   surfaces_non_2xx gc log (createCheckout gc this checkout_data log) url init response \<and>
   surfaces_non_2xx g log (getCheckout g this ident log) url init response \<and>
   surfaces_non_2xx g log (listCheckouts g this per_page log) url init response \<and>
   surfaces_non_2xx g log (getCheckoutItems g this ident per_page log) url init response \<and>
   surfaces_non_2xx g log (expireCheckout g this ident log) url init response \<and>
   surfaces_non_2xx g log (createPaymentLink g this data log) url init response \<and>
   surfaces_non_2xx g log (updatePaymentLink g this ident data log) url init response \<and>
   surfaces_non_2xx g log (getPaymentLink g this ident log) url init response \<and>
   surfaces_non_2xx g log (listPaymentLinks g this per_page log) url init response \<and>
   surfaces_non_2xx g log (getPaymentLinkItems g this ident per_page log) url init response"
  unfolding public_methods
  by (simp add: request_surfaces createCheckout_surfaces)

theorem non_2xx_is_thrown_witness:
  "snd (getCustomer (example_globals 404 (js ''Not Found'') :: (unit, unit) globals)
          (constructor example_consts example_options) (js ''cus_1'') [])
     = [(js ''https://pay.chargily.net/test/api/v2/customers/cus_1'',
         \<lparr> method = js ''GET'',
           headers = [(js ''Authorization'', js ''Bearer test_sk_1''),
                      (js ''Content-Type'', js ''application/json'')],
           body = None \<rparr>)] \<and>
   fetch_settles (example_globals 404 (js ''Not Found'') :: (unit, unit) globals) []
       (js ''https://pay.chargily.net/test/api/v2/customers/cus_1'')
       \<lparr> method = js ''GET'',
         headers = [(js ''Authorization'', js ''Bearer test_sk_1''),
                    (js ''Content-Type'', js ''application/json'')],
         body = None \<rparr>
     = Inr \<lparr> status = 404, statusText = js ''Not Found'', json = Inr () \<rparr> \<and>
   fst (getCustomer (example_globals 404 (js ''Not Found'') :: (unit, unit) globals)
          (constructor example_consts example_options) (js ''cus_1'') [])
     = Inl (new_Error
         (js ''Failed to make API request: Error: API request failed with status 404: Not Found''))"
proof -
  let ?g = "example_globals 404 (js ''Not Found'') :: (unit, unit) globals"
  let ?url = "js ''https://pay.chargily.net/test/api/v2/customers/cus_1''"
  let ?init = "\<lparr> method = js ''GET'',
           headers = [(js ''Authorization'', js ''Bearer test_sk_1''),
                      (js ''Content-Type'', js ''application/json'')],
           body = None \<rparr>"
  let ?r = "\<lparr> status = 404, statusText = js ''Not Found'', json = Inr () \<rparr> :: unit Response"
  have issued: "snd (getCustomer ?g (constructor example_consts example_options) (js ''cus_1'') [])
      = [] @ [(?url, ?init)]"
    by (simp add: getCustomer_def request_log_None constructor_def example_consts_def
        example_options_def GET_def js_def)
  have settled: "fetch_settles ?g [] ?url ?init = Inr ?r"
    by (simp add: example_globals_def)
  have status: "\<not> (200 \<le> status ?r \<and> status ?r \<le> 299)" by simp
  have msg: "js ''Failed to make API request: Error: API request failed with status ''
                @ Number_toString (status ?r) @ js '': '' @ statusText ?r
    = js ''Failed to make API request: Error: API request failed with status 404: Not Found''"
    by (simp add: Number_toString_404) (simp add: js_def)
  have "surfaces_non_2xx ?g [] (getCustomer ?g (constructor example_consts example_options)
          (js ''cus_1'') []) ?url ?init ?r"
    using non_2xx_is_thrown [where g = ?g and log = "[]" and url = ?url and init = ?init
        and response = ?r and this = "constructor example_consts example_options"
        and ident = "js ''cus_1''" and data = "()" and per_page = None and endpoint = "[]"
        and method_arg = None and body_arg = None
        and gc = "example_globals 404 (js ''Not Found'')"
        and checkout_data = "example_checkout []"]
    by (elim conjE)
  with issued settled status msg show ?thesis
    unfolding surfaces_non_2xx_def by simp
qed

text \<open>
  C10. The client keeps the API key of its options and the test base URL exactly
  when the mode is \<open>test\<close>, the live base URL otherwise.  When there is no body, or
  the body is serialised, \<open>request\<close> issues one request, to the base URL, a slash
  and the endpoint, with the header \<open>Authorization: Bearer\<close> and the API key; when
  \<open>JSON.stringify\<close> throws on the body, \<open>request\<close> throws that error and builds no
  request.  Every request that a public method issues has such a URL and this
  header.
\<close>

theorem requests_target_base_url_with_bearer:
  "this_api_key (constructor consts_mod options) = api_key options \<and>
   this_base_url (constructor consts_mod options) =
     (if mode options = Test then CHARGILY_TEST_URL consts_mod else CHARGILY_LIVE_URL consts_mod) \<and>
   snd (request g (constructor consts_mod options) endpoint method_arg None log) =
     log @ [((if mode options = Test then CHARGILY_TEST_URL consts_mod
              else CHARGILY_LIVE_URL consts_mod) @ js ''/'' @ endpoint,
             \<lparr> method = (case method_arg of None \<Rightarrow> js ''GET'' | Some m \<Rightarrow> m),
               headers = [(js ''Authorization'', js ''Bearer '' @ api_key options),
                          (js ''Content-Type'', js ''application/json'')],
               body = None \<rparr>)] \<and>
   (JSON_stringify g b = Inr json_text \<longrightarrow>
    snd (request g (constructor consts_mod options) endpoint method_arg (Some b) log) =
     log @ [((if mode options = Test then CHARGILY_TEST_URL consts_mod
              else CHARGILY_LIVE_URL consts_mod) @ js ''/'' @ endpoint,
             \<lparr> method = (case method_arg of None \<Rightarrow> js ''GET'' | Some m \<Rightarrow> m),
               headers = [(js ''Authorization'', js ''Bearer '' @ api_key options),
                          (js ''Content-Type'', js ''application/json'')],
               body = Some json_text \<rparr>)]) \<and>
   (JSON_stringify g b = Inl thrown \<longrightarrow>
    request g (constructor consts_mod options) endpoint method_arg (Some b) log
      = (Inl thrown, log)) \<and>
   issues_only (targets_base_with_bearer consts_mod options) log
     (snd (getBalance g (constructor consts_mod options) log)) \<and>
   issues_only (targets_base_with_bearer consts_mod options) log
     (snd (createCustomer g (constructor consts_mod options) data log)) \<and>
   issues_only (targets_base_with_bearer consts_mod options) log
     (snd (getCustomer g (constructor consts_mod options) ident log)) \<and>
   issues_only (targets_base_with_bearer consts_mod options) log
     (snd (updateCustomer g (constructor consts_mod options) ident data log)) \<and>
   issues_only (targets_base_with_bearer consts_mod options) log
     (snd (deleteCustomer g (constructor consts_mod options) ident log)) \<and>
   issues_only (targets_base_with_bearer consts_mod options) log
     (snd (listCustomers g (constructor consts_mod options) per_page log)) \<and>
   issues_only (targets_base_with_bearer consts_mod options) log
     (snd (createProduct g (constructor consts_mod options) data log)) \<and>
   issues_only (targets_base_with_bearer consts_mod options) log
     (snd (updateProduct g (constructor consts_mod options) ident data log)) \<and>
   issues_only (targets_base_with_bearer consts_mod options) log
     (snd (getProduct g (constructor consts_mod options) ident log)) \<and>
   issues_only (targets_base_with_bearer consts_mod options) log
     (snd (listProducts g (constructor consts_mod options) per_page log)) \<and>
   issues_only (targets_base_with_bearer consts_mod options) log
     (snd (deleteProduct g (constructor consts_mod options) ident log)) \<and>
   issues_only (targets_base_with_bearer consts_mod options) log
     (snd (getProductPrices g (constructor consts_mod options) ident per_page log)) \<and>
   issues_only (targets_base_with_bearer consts_mod options) log
     (snd (createPrice g (constructor consts_mod options) data log)) \<and>
   issues_only (targets_base_with_bearer consts_mod options) log
     (snd (updatePrice g (constructor consts_mod options) ident data log)) \<and>
   issues_only (targets_base_with_bearer consts_mod options) log
     (snd (getPrice g (constructor consts_mod options) ident log)) \<and>
   issues_only (targets_base_with_bearer consts_mod options) log
     (snd (listPrices g (constructor consts_mod options) per_page log)) \<and>
   issues_only (targets_base_with_bearer consts_mod options) log
     (snd (createCheckout gc (constructor consts_mod options) checkout_data log)) \<and>
   issues_only (targets_base_with_bearer consts_mod options) log
     (snd (getCheckout g (constructor consts_mod options) ident log)) \<and>
   issues_only (targets_base_with_bearer consts_mod options) log
     (snd (listCheckouts g (constructor consts_mod options) per_page log)) \<and>
   issues_only (targets_base_with_bearer consts_mod options) log
     (snd (getCheckoutItems g (constructor consts_mod options) ident per_page log)) \<and>
   issues_only (targets_base_with_bearer consts_mod options) log
     (snd (expireCheckout g (constructor consts_mod options) ident log)) \<and>
   issues_only (targets_base_with_bearer consts_mod options) log
     (snd (createPaymentLink g (constructor consts_mod options) data log)) \<and>
   issues_only (targets_base_with_bearer consts_mod options) log
     (snd (updatePaymentLink g (constructor consts_mod options) ident data log)) \<and>
   issues_only (targets_base_with_bearer consts_mod options) log
     (snd (getPaymentLink g (constructor consts_mod options) ident log)) \<and>
   issues_only (targets_base_with_bearer consts_mod options) log
     (snd (listPaymentLinks g (constructor consts_mod options) per_page log)) \<and>
   issues_only (targets_base_with_bearer consts_mod options) log
     (snd (getPaymentLinkItems g (constructor consts_mod options) ident per_page log))"
proof -
  have "this_api_key (constructor consts_mod options) = api_key options"
    and "this_base_url (constructor consts_mod options) =
     (if mode options = Test then CHARGILY_TEST_URL consts_mod else CHARGILY_LIVE_URL consts_mod)"
    by (simp_all add: constructor_def)
  then show ?thesis
    unfolding public_methods
    by (simp add: request_issues createCheckout_issues)
       (simp add: request_log_None request_log_Some request_stringify_throws)
qed

theorem requests_target_base_url_with_bearer_witness:
  "snd (expireCheckout (example_globals 200 (js ''OK'') :: (unit, unit) globals)
          (constructor example_consts (example_options \<lparr> mode := Live \<rparr>)) (js ''chk_1'') [])
     = [(js ''https://pay.chargily.net/api/v2/checkouts/chk_1/expire'',
         \<lparr> method = js ''POST'',
           headers = [(js ''Authorization'', js ''Bearer test_sk_1''),
                      (js ''Content-Type'', js ''application/json'')],
           body = None \<rparr>)] \<and>
   targets_base_with_bearer example_consts (example_options \<lparr> mode := Live \<rparr>)
     (js ''https://pay.chargily.net/api/v2/checkouts/chk_1/expire'',
         \<lparr> method = js ''POST'',
           headers = [(js ''Authorization'', js ''Bearer test_sk_1''),
                      (js ''Content-Type'', js ''application/json'')],
           body = None \<rparr>) \<and>
   JSON_stringify (example_globals 200 (js ''OK'') :: (unit, unit) globals) () = Inr (js ''{}'') \<and>
   snd (request (example_globals 200 (js ''OK'') :: (unit, unit) globals)
          (constructor example_consts example_options) (js ''customers'') POST (Some ()) [])
     = [(js ''https://pay.chargily.net/test/api/v2/customers'',
         \<lparr> method = js ''POST'',
           headers = [(js ''Authorization'', js ''Bearer test_sk_1''),
                      (js ''Content-Type'', js ''application/json'')],
           body = Some (js ''{}'') \<rparr>)] \<and>
   JSON_stringify (refusing_globals 200 (js ''OK'') :: (unit, unit) globals) () = Inl unserialisable \<and>
   request (refusing_globals 200 (js ''OK'') :: (unit, unit) globals)
       (constructor example_consts example_options) (js ''customers'') POST (Some ()) []
     = (Inl unserialisable, [])"
proof -
  let ?g = "example_globals 200 (js ''OK'') :: (unit, unit) globals"
  let ?r = "refusing_globals 200 (js ''OK'') :: (unit, unit) globals"
  let ?o = "example_options \<lparr> mode := Live \<rparr>"
  have issued: "snd (expireCheckout ?g (constructor example_consts ?o) (js ''chk_1'') [])
     = [(js ''https://pay.chargily.net/api/v2/checkouts/chk_1/expire'',
         \<lparr> method = js ''POST'',
           headers = [(js ''Authorization'', js ''Bearer test_sk_1''),
                      (js ''Content-Type'', js ''application/json'')],
           body = None \<rparr>)]"
    by (simp add: expireCheckout_def request_log_None constructor_def example_consts_def
        example_options_def POST_def js_def)
  have "issues_only (targets_base_with_bearer example_consts ?o) []
     (snd (expireCheckout ?g (constructor example_consts ?o) (js ''chk_1'') []))"
    using requests_target_base_url_with_bearer [where g = ?g and log = "[]"
        and consts_mod = example_consts and options = ?o and ident = "js ''chk_1''"
        and data = "()" and per_page = None and endpoint = "[]"
        and method_arg = None and b = "()" and json_text = "[]" and thrown = unserialisable
        and gc = "example_globals 200 (js ''OK'')"
        and checkout_data = "example_checkout []"]
    by (elim conjE)
  with issued have first: "targets_base_with_bearer example_consts ?o
     (js ''https://pay.chargily.net/api/v2/checkouts/chk_1/expire'',
         \<lparr> method = js ''POST'',
           headers = [(js ''Authorization'', js ''Bearer test_sk_1''),
                      (js ''Content-Type'', js ''application/json'')],
           body = None \<rparr>)"
    by (simp add: issues_only_def)
  have serialised: "JSON_stringify ?g () = Inr (js ''{}'')"
    by (simp add: example_globals_def)
  have refused: "JSON_stringify ?r () = Inl unserialisable"
    by (simp add: refusing_globals_def)
  have "JSON_stringify ?g () = Inr (js ''{}'') \<longrightarrow>
    snd (request ?g (constructor example_consts example_options) (js ''customers'') POST (Some ()) []) =
     [] @ [((if mode example_options = Test then CHARGILY_TEST_URL example_consts
              else CHARGILY_LIVE_URL example_consts) @ js ''/'' @ js ''customers'',
             \<lparr> method = (case POST of None \<Rightarrow> js ''GET'' | Some m \<Rightarrow> m),
               headers = [(js ''Authorization'', js ''Bearer '' @ api_key example_options),
                          (js ''Content-Type'', js ''application/json'')],
               body = Some (js ''{}'') \<rparr>)]"
    using requests_target_base_url_with_bearer [where g = ?g and log = "[]"
        and consts_mod = example_consts and options = example_options and ident = "[]"
        and data = "()" and per_page = None and endpoint = "js ''customers''"
        and method_arg = POST and b = "()" and json_text = "js ''{}''"
        and thrown = unserialisable
        and gc = "example_globals 200 (js ''OK'')"
        and checkout_data = "example_checkout []"]
    by (elim conjE)
  with serialised have second:
    "snd (request ?g (constructor example_consts example_options) (js ''customers'') POST (Some ()) [])
     = [(js ''https://pay.chargily.net/test/api/v2/customers'',
         \<lparr> method = js ''POST'',
           headers = [(js ''Authorization'', js ''Bearer test_sk_1''),
                      (js ''Content-Type'', js ''application/json'')],
           body = Some (js ''{}'') \<rparr>)]"
    by (simp add: example_consts_def example_options_def POST_def js_def)
  have "JSON_stringify ?r () = Inl unserialisable \<longrightarrow>
    request ?r (constructor example_consts example_options) (js ''customers'') POST (Some ()) []
      = (Inl unserialisable, [])"
    using requests_target_base_url_with_bearer [where g = ?r and log = "[]"
        and consts_mod = example_consts and options = example_options and ident = "[]"
        and data = "()" and per_page = None and endpoint = "js ''customers''"
        and method_arg = POST and b = "()" and json_text = "[]"
        and thrown = unserialisable
        and gc = "example_globals 200 (js ''OK'')"
        and checkout_data = "example_checkout []"]
    by (elim conjE)
  with refused have third:
    "request ?r (constructor example_consts example_options) (js ''customers'') POST (Some ()) []
      = (Inl unserialisable, [])"
    by simp
  from issued first serialised second refused third show ?thesis by simp
qed

end
